theory Spec2Isabelle
  imports Main "HOL-Library.Sublist"
begin

section \<open>Strings as the handler uses them\<close>

text \<open>
  Python strings are modelled as \<open>string\<close> (lists of 8-bit characters), read as ASCII
  text. \<open>str.lower()\<close> maps \<open>A\<close>..\<open>Z\<close> to \<open>a\<close>..\<open>z\<close> and leaves every other
  character alone; Python's treatment of cased letters outside ASCII is not modelled.
\<close>

definition lower_char :: "char \<Rightarrow> char" where
  "lower_char c =
     (case map_of (zip ''ABCDEFGHIJKLMNOPQRSTUVWXYZ'' ''abcdefghijklmnopqrstuvwxyz'') c of
        Some l \<Rightarrow> l
      | None \<Rightarrow> c)"

definition lower :: "string \<Rightarrow> string" where
  "lower s = map lower_char s"

text \<open>\<open>w in s\<close> on two strings: \<open>w\<close> occurs in \<open>s\<close> as a contiguous run.\<close>

fun py_in :: "string \<Rightarrow> string \<Rightarrow> bool" where
  "py_in w [] = (w = [])"
| "py_in w (c # cs) = (prefix w (c # cs) \<or> py_in w cs)"

text \<open>An f-string field \<open>{x}\<close> where \<open>x\<close> is a string or \<open>None\<close>.\<close>

definition fstr :: "string option \<Rightarrow> string" where
  "fstr x = (case x of None \<Rightarrow> ''None'' | Some s \<Rightarrow> s)"

text \<open>The f-string \<open>{name} {description}\<close>, built for the denylist and for the prompt.\<close>

definition combined_text :: "string option \<Rightarrow> string option \<Rightarrow> string" where
  "combined_text nm desc = fstr nm @ '' '' @ fstr desc"

text \<open>\<open>sep.join(xs)\<close>.\<close>

fun join :: "string \<Rightarrow> string list \<Rightarrow> string" where
  "join sep [] = []"
| "join sep [x] = x"
| "join sep (x # y # ys) = x @ sep @ join sep (y # ys)"

text \<open>\<open>str.strip()\<close>: ASCII white space is removed at both ends.\<close>

definition isspace :: "char \<Rightarrow> bool" where
  "isspace c =
     (c \<in> set [CHR 0x09, CHR 0x0A, CHR 0x0B, CHR 0x0C, CHR 0x0D,
                CHR 0x1C, CHR 0x1D, CHR 0x1E, CHR 0x1F, CHR 0x20])"

definition strip :: "string \<Rightarrow> string" where
  "strip s = rev (dropWhile isspace (rev (dropWhile isspace s)))"

text \<open>
  The second component of \<open>os.path.splitext(p)\<close> on a POSIX system: the text from the
  last dot of the last path component on, when a character other than a dot comes before
  that dot in the component, and the empty string otherwise.
\<close>

definition splitext_ext :: "string \<Rightarrow> string" where
  "splitext_ext p =
     (let base = rev (takeWhile (\<lambda>c. c \<noteq> CHR ''/'') (rev p));
          after = rev (takeWhile (\<lambda>c. c \<noteq> CHR ''.'') (rev base));
          stem = take (length base - length after - 1) base
      in if CHR ''.'' \<in> set base \<and> list_ex (\<lambda>c. c \<noteq> CHR ''.'') stem
         then CHR ''.'' # after else [])"

section \<open>The denylist matcher\<close>

definition blacklist_words :: "string list" where
  "blacklist_words =
    [''alcohol'', ''weed'', ''marijuana'', ''cannabis'', ''vodka'', ''whiskey'', ''beer'',
     ''tobacco'', ''cigarettes'', ''vape'', ''e-cigarettes'', ''smoking'', ''heroin'',
     ''cocaine'', ''meth'', ''opioids'', ''ecstasy'', ''narcotics'', ''gambling'', ''casino'',
     ''betting'', ''poker'', ''lottery'', ''nudity'', ''porn'', ''NSFW'',
     ''prostitution'', ''sex'', ''fetish'', ''lingerie'', ''stripper'',
     ''naked'', ''drugs'', ''hashish'', ''amphetamine'',
     ''explosives'', ''terrorism'', ''extremism'', ''illegal'', ''sutta'', ''daaru'',
     ''maal'', ''charsi'', ''ganja'', ''nashe'', ''chirkut'', ''tharki'', ''kamina'',
     ''behenchod'', ''madarchod'', ''chutiya'', ''harami'', ''bhosad'', ''bakchodi'',
     ''gaand'', ''suar'', ''hijra'', ''bastard'', ''rape'', ''molest'', ''dalali'', ''nanga'',
     ''lauda'', ''kidnap'', ''dacoit'', ''firangi'', ''dhamki'', ''suicide'', ''murders'',
     ''lootera'', ''darinda'', ''lafanga'', ''sadakchap'', ''gunda'', ''nashedi'', ''bawali'',
     ''opium'', ''hookah'']"

definition contains_blacklisted_word :: "string \<Rightarrow> bool" where
  "contains_blacklisted_word input_string =
     (let normalized_string = lower input_string
      in list_ex (\<lambda>word. py_in word normalized_string) blacklist_words)"

section \<open>Requests, responses and the outside world\<close>

text \<open>
  The uploaded file as the handler reads it: its file name and its declared MIME type.
  A file object of the web framework is falsy when its file name is empty.
\<close>

record file_storage =
  filename :: string
  mimetype :: string

record request =
  photo :: "file_storage option"
  name :: "string option"
  description :: "string option"

datatype json =
    JNull
  | JBool bool
  | JNum int
  | JStr string
  | JArr "json list"
  | JObj "(string \<times> json) list"

record http_response =
  status :: nat
  body :: json

text \<open>\<open>jsonify(d)\<close> answers with the default status; \<open>jsonify(d), 400\<close> sets it.\<close>

definition jsonify :: "json \<Rightarrow> http_response" where
  "jsonify d = \<lparr>status = 200, body = d\<rparr>"

definition jsonify_status :: "json \<Rightarrow> nat \<Rightarrow> http_response" where
  "jsonify_status d st = \<lparr>status = st, body = d\<rparr>"

text \<open>What the classifier service hands back.\<close>

record safety_rating =
  category :: string
  probability :: string

record candidate =
  finish_reason :: string
  safety_ratings :: "safety_rating list"

text \<open>
  \<open>response_text\<close> is the accessor \<open>response.text\<close>: \<open>None\<close> when it raises (the
  client library raises \<open>ValueError\<close> when the answer carries no content part, which is
  what a blocked answer looks like).
\<close>

record response =
  response_text :: "string option"
  candidates :: "candidate list"

datatype exn = ServiceError string | OSError string | ValueError | IndexError

datatype part = Text string | FileRef string

datatype call = UploadFile string | GenerateContent "part list"

text \<open>
  The collaborators of the handler, as parameters: \<open>NamedTemporaryFile\<close>, which for a
  suffix either creates a file and gives its path or raises (a suffix that makes the file
  name too long is refused by the file system), the two calls to the classifier service,
  each of which may raise, and \<open>json.loads\<close> (\<open>None\<close> for \<open>JSONDecodeError\<close>).
\<close>

record services =
  named_temporary_file :: "string \<Rightarrow> exn + string"
  upload_file :: "string \<Rightarrow> exn + string"
  generate_content :: "part list \<Rightarrow> exn + response"
  json_loads :: "string \<Rightarrow> json option"

text \<open>
  The state outside the handler: the temporary files that exist, and the calls made to
  the classifier service so far. Creating the temporary file may fail; writing the upload
  into the file just created and removing that file are taken to succeed.
\<close>

record world =
  files :: "string set"
  calls :: "call list"

section \<open>The request handler\<close>

definition generic_body :: json where
  "generic_body =
     JObj [(''compliant'', JBool False),
           (''reason'', JStr ''Does not comply with our Term of Service'')]"

definition supported_formats :: "string list" where
  "supported_formats =
     [''image/png'', ''image/jpeg'', ''image/webp'', ''image/heic'', ''image/heif'']"

definition not_file :: "file_storage option \<Rightarrow> bool" where
  "not_file img = (case img of None \<Rightarrow> True | Some f \<Rightarrow> filename f = [])"

definition not_str :: "string option \<Rightarrow> bool" where
  "not_str s = (case s of None \<Rightarrow> True | Some t \<Rightarrow> t = [])"

definition rating_text :: "safety_rating \<Rightarrow> string" where
  "rating_text rating = drop 14 (category rating) @ '' ('' @ probability rating @ '')''"

definition build_prompt :: "string \<Rightarrow> string option \<Rightarrow> string option \<Rightarrow> part list" where
  "build_prompt myfile nm desc =
     [Text ''Analyze the following product description and image for compliance with platform regulations(given in system prompt):'',
      Text [CHR 0x0A, CHR 0x0A],
      FileRef myfile,
      Text [CHR 0x0A, CHR 0x0A],
      Text (''Description: '' @ combined_text nm desc)]"

text \<open>
  The body of the \<open>try\<close> statement: \<open>Inl\<close> is an exception on its way to the bare
  \<open>except\<close>, \<open>Inr\<close> a response returned from inside.
\<close>

definition try_body ::
  "services \<Rightarrow> string \<Rightarrow> string option \<Rightarrow> string option \<Rightarrow> world
     \<Rightarrow> (exn + http_response) \<times> world" where
  "try_body sv temp_file_path nm desc w =
     (let w1 = w\<lparr>calls := calls w @ [UploadFile temp_file_path]\<rparr> in
      case upload_file sv temp_file_path of
        Inl e \<Rightarrow> (Inl e, w1)
      | Inr myfile \<Rightarrow>
          (let prompt = build_prompt myfile nm desc;
               w2 = w1\<lparr>calls := calls w1 @ [GenerateContent prompt]\<rparr> in
           case generate_content sv prompt of
             Inl e \<Rightarrow> (Inl e, w2)
           | Inr response \<Rightarrow>
               (case response_text response of
                  None \<Rightarrow> (Inl ValueError, w2)
                | Some txt \<Rightarrow>
                    (case candidates response of
                       [] \<Rightarrow> (Inl IndexError, w2)
                     | c # _ \<Rightarrow>
                         if finish_reason c = ''SAFETY'' then
                           (let non_negligible_ratings =
                                  filter (\<lambda>rating. probability rating \<noteq> ''NEGLIGIBLE'')
                                    (safety_ratings c) in
                            if non_negligible_ratings \<noteq> [] then
                              (Inr (jsonify (JObj [(''compliant'', JBool False),
                                     (''reason'',
                                      JStr (join '', '' (map rating_text non_negligible_ratings)))])),
                               w2)
                            else (Inr (jsonify (JObj [(''compliant'', JBool True)])), w2))
                         else
                           (case json_loads sv (strip txt) of
                              Some response_data \<Rightarrow> (Inr (jsonify response_data), w2)
                            | None \<Rightarrow>
                                (Inr (jsonify (JObj [(''error'',
                                        JStr ''Invalid JSON response from the model'')])),
                                 w2))))))"

text \<open>
  The handler. \<open>Inr\<close> is the response it returns. \<open>Inl\<close> is an exception that leaves
  it, which the web framework turns into a status 500: the temporary file is created
  before the \<open>try\<close> statement, so an exception raised there is caught by nothing.
\<close>

definition check_compliance ::
  "services \<Rightarrow> request \<Rightarrow> world \<Rightarrow> (exn + http_response) \<times> world" where
  "check_compliance sv rq w =
     (let img_file = photo rq; nm = name rq; desc = description rq in
      if contains_blacklisted_word (combined_text nm desc) then
        (Inr (jsonify generic_body), w)
      else if not_file img_file \<or> not_str desc then
        (Inr (jsonify_status
                (JObj [(''error'', JStr ''Image and description are required'')]) 400), w)
      else
        (case img_file of
           None \<Rightarrow>
             (Inr (jsonify_status
                     (JObj [(''error'', JStr ''Image and description are required'')]) 400), w)
         | Some img \<Rightarrow>
             if mimetype img \<notin> set supported_formats then
               (Inr (jsonify_status (JObj [(''error'', JStr ''Unsupported image format'')]) 400),
                w)
             else
               (case named_temporary_file sv (splitext_ext (filename img)) of
                  Inl e \<Rightarrow> (Inl e, w)
                | Inr temp_file_path \<Rightarrow>
                    (let w1 = w\<lparr>files := insert temp_file_path (files w)\<rparr>;
                         (r, w2) = try_body sv temp_file_path nm desc w1;
                         resp = (case r of Inl e \<Rightarrow> jsonify generic_body | Inr resp \<Rightarrow> resp)
                     in (Inr resp, w2\<lparr>files := files w2 - {temp_file_path}\<rparr>)))))"

section \<open>Path conditions and the vocabulary of the specification\<close>

text \<open>
  A request passes validation when the denylist finds nothing, the photo and the
  description are truthy, and the declared MIME type is supported. The handler then
  creates the temporary file; \<open>temp_file\<close> is what becomes of that.
\<close>

definition passes_validation :: "request \<Rightarrow> bool" where
  "passes_validation rq =
     (\<not> contains_blacklisted_word (combined_text (name rq) (description rq)) \<and>
      \<not> not_file (photo rq) \<and> \<not> not_str (description rq) \<and>
      (case photo rq of None \<Rightarrow> False | Some img \<Rightarrow> mimetype img \<in> set supported_formats))"

definition temp_file :: "services \<Rightarrow> request \<Rightarrow> exn + string" where
  "temp_file sv rq =
     (case photo rq of
        None \<Rightarrow> Inr []
      | Some img \<Rightarrow> named_temporary_file sv (splitext_ext (filename img)))"

text \<open>
  The specification's reading of the denylist: an entry occurs in a text when case is
  ignored on both sides.
\<close>

definition contains_ignoring_case :: "string \<Rightarrow> string \<Rightarrow> bool" where
  "contains_ignoring_case entry txt = py_in (lower entry) (lower txt)"

definition has_denylisted_term :: "string \<Rightarrow> bool" where
  "has_denylisted_term txt = list_ex (\<lambda>entry. contains_ignoring_case entry txt) blacklist_words"

text \<open>The generic body as the specification spells it.\<close>

definition spec_generic_body :: json where
  "spec_generic_body =
     JObj [(''compliant'', JBool False),
           (''reason'', JStr ''Does not comply with our Terms of Service'')]"






section \<open>Concrete requests and collaborators\<close>

text \<open>
  A collaborator on a file system whose file names hold at most 255 characters: the
  temporary file is named \<open>tmp\<close>, eight characters and the suffix.
\<close>

definition demo_services :: "(exn + string) \<Rightarrow> (exn + response) \<Rightarrow> json option \<Rightarrow> services" where
  "demo_services uploaded generated parsed =
     \<lparr>named_temporary_file =
        (\<lambda>suffix. if 255 < 11 + length suffix then Inl (OSError ''File name too long'')
                  else Inr (''/tmp/tmpk3v9x2ab'' @ suffix)),
      upload_file = (\<lambda>path. uploaded),
      generate_content = (\<lambda>prompt. generated),
      json_loads = (\<lambda>txt. parsed)\<rparr>"

definition answered :: "string \<Rightarrow> response" where
  "answered txt =
     \<lparr>response_text = Some txt,
      candidates = [\<lparr>finish_reason = ''STOP'', safety_ratings = []\<rparr>]\<rparr>"

definition blocked :: "string option \<Rightarrow> safety_rating list \<Rightarrow> response" where
  "blocked txt ratings =
     \<lparr>response_text = txt,
      candidates = [\<lparr>finish_reason = ''SAFETY'', safety_ratings = ratings\<rparr>]\<rparr>"

definition listing :: "string option \<Rightarrow> string option \<Rightarrow> request" where
  "listing nm desc =
     \<lparr>photo = Some \<lparr>filename = ''item.png'', mimetype = ''image/png''\<rparr>,
      name = nm, description = desc\<rparr>"

definition gif_listing :: "string option \<Rightarrow> string option \<Rightarrow> request" where
  "gif_listing nm desc =
     \<lparr>photo = Some \<lparr>filename = ''item.gif'', mimetype = ''image/gif''\<rparr>,
      name = nm, description = desc\<rparr>"


definition no_photo :: "string option \<Rightarrow> string option \<Rightarrow> request" where
  "no_photo nm desc = \<lparr>photo = None, name = nm, description = desc\<rparr>"

definition quiet :: world where
  "quiet = \<lparr>files = {}, calls = []\<rparr>"

section \<open>Facts about strings and the denylist\<close>

text \<open>\<open>py_in\<close> is the contiguous-sublist relation of the library.\<close>

lemma py_in_sublist: "py_in w s = sublist w s"
  by (induction s) (auto simp: sublist_Cons_right)

lemma lower_words: "\<forall>w \<in> set blacklist_words. w \<noteq> ''NSFW'' \<longrightarrow> lower w = w"
  by code_simp

lemma lower_append: "lower (a @ b) = lower a @ lower b"
  by (simp add: lower_def)

lemma lower_space: "lower (CHR '' '' # b) = CHR '' '' # lower b"
  by (simp add: lower_def lower_char_def)

lemma words_no_space: "\<forall>w \<in> set blacklist_words. CHR '' '' \<notin> set w"
  unfolding blacklist_words_def by code_simp

text \<open>
  No denylist entry contains a blank, so an entry found in \<open>a + " " + b\<close> lies in \<open>a\<close>
  or in \<open>b\<close>.
\<close>

lemma prefix_sep:
  assumes "sep \<notin> set xs"
  shows "prefix xs (ys @ sep # zs) \<longleftrightarrow> prefix xs ys"
proof
  assume "prefix xs (ys @ sep # zs)"
  then consider "prefix xs ys" | us where "xs = ys @ us" "prefix us (sep # zs)"
    by (auto simp: prefix_append)
  then show "prefix xs ys"
  proof cases
    case 1
    then show ?thesis .
  next
    case 2
    with assms have "us = []"
      by (cases us) auto
    with 2 show ?thesis by simp
  qed
next
  assume "prefix xs ys"
  then show "prefix xs (ys @ sep # zs)"
    by (simp add: prefix_append)
qed

lemma sublist_sep:
  assumes "sep \<notin> set xs"
  shows "sublist xs (ys @ sep # zs) \<longleftrightarrow> sublist xs ys \<or> sublist xs zs"
proof (induction ys)
  case Nil
  from assms have "prefix xs (sep # zs) \<longleftrightarrow> xs = []"
    by (cases xs) auto
  then show ?case
    by (auto simp: sublist_Cons_right)
next
  case (Cons y ys)
  have "prefix xs (y # ys @ sep # zs) \<longleftrightarrow> prefix xs (y # ys)"
    using prefix_sep [OF assms, of "y # ys" zs] by simp
  with Cons show ?case
    by (auto simp: sublist_Cons_right)
qed

lemma denylist_sep:
  "contains_blacklisted_word (a @ CHR '' '' # b) \<longleftrightarrow>
     contains_blacklisted_word a \<or> contains_blacklisted_word b"
proof -
  have "py_in w (lower (a @ CHR '' '' # b)) \<longleftrightarrow> py_in w (lower a) \<or> py_in w (lower b)"
    if "w \<in> set blacklist_words" for w
  proof -
    from that words_no_space have "CHR '' '' \<notin> set w" by blast
    then show ?thesis
      using sublist_sep [of "CHR '' ''" w "lower a" "lower b"]
      by (simp add: py_in_sublist lower_append lower_space)
  qed
  then show ?thesis
    unfolding contains_blacklisted_word_def Let_def list_ex_iff by blast
qed

lemma denylist_None: "\<not> contains_blacklisted_word ''None''"
  by code_simp

lemma denylist_Nil: "\<not> contains_blacklisted_word []"
  by code_simp

lemma denylist_combined:
  "contains_blacklisted_word (combined_text nm desc) \<longleftrightarrow>
     contains_blacklisted_word (fstr nm) \<or> contains_blacklisted_word (fstr desc)"
  by (simp add: combined_text_def denylist_sep)




section \<open>The paths through the handler\<close>

lemma check_compliance_hit:
  "contains_blacklisted_word (combined_text (name rq) (description rq)) \<Longrightarrow>
   check_compliance sv rq w = (Inr (jsonify generic_body), w)"
  by (simp add: check_compliance_def)


lemma check_compliance_no_temp_file:
  assumes "passes_validation rq" and "temp_file sv rq = Inl e"
  shows "check_compliance sv rq w = (Inl e, w)"
  using assms
  by (auto simp: check_compliance_def passes_validation_def temp_file_def Let_def
           split: option.splits)

lemma fst_check_compliance_classify:
  assumes "passes_validation rq" and "temp_file sv rq = Inr p"
  shows "fst (check_compliance sv rq w) =
     Inr (case fst (try_body sv p (name rq) (description rq)
                      (w\<lparr>files := insert p (files w)\<rparr>)) of
            Inl e \<Rightarrow> jsonify generic_body
          | Inr resp \<Rightarrow> resp)"
  using assms
  by (auto simp: check_compliance_def passes_validation_def temp_file_def Let_def
           split: option.splits prod.splits)

lemma snd_check_compliance_classify:
  assumes "passes_validation rq" and "temp_file sv rq = Inr p"
  shows "snd (check_compliance sv rq w) =
     (snd (try_body sv p (name rq) (description rq) (w\<lparr>files := insert p (files w)\<rparr>)))
       \<lparr>files :=
          files (snd (try_body sv p (name rq) (description rq)
                   (w\<lparr>files := insert p (files w)\<rparr>))) - {p}\<rparr>"
  using assms
  by (auto simp: check_compliance_def passes_validation_def temp_file_def Let_def
           split: option.splits prod.splits)

lemma files_try_body: "files (snd (try_body sv p nm desc w)) = files w"
  by (simp add: try_body_def Let_def split: sum.splits option.splits list.splits)

lemma calls_try_body:
  "\<exists>more. calls (snd (try_body sv p nm desc w)) = calls w @ UploadFile p # more"
  by (simp add: try_body_def Let_def split: sum.splits option.splits list.splits)

lemma try_body_raises:
  "(\<exists>e. fst (try_body sv p nm desc w) = Inl e) \<longleftrightarrow>
     (case upload_file sv p of
        Inl e \<Rightarrow> True
      | Inr myfile \<Rightarrow>
          (case generate_content sv (build_prompt myfile nm desc) of
             Inl e \<Rightarrow> True
           | Inr r \<Rightarrow> response_text r = None \<or> candidates r = []))"
  by (simp add: try_body_def Let_def split: sum.splits option.splits list.splits)

lemma try_body_answer:
  assumes "upload_file sv p = Inr myfile"
    and "generate_content sv (build_prompt myfile nm desc) = Inr r"
    and "response_text r = Some txt"
    and "candidates r = c # cs"
    and "finish_reason c \<noteq> ''SAFETY''"
  shows "fst (try_body sv p nm desc w) =
     Inr (jsonify (case json_loads sv (strip txt) of
                     Some response_data \<Rightarrow> response_data
                   | None \<Rightarrow> JObj [(''error'', JStr ''Invalid JSON response from the model'')]))"
  using assms by (simp add: try_body_def Let_def split: option.splits)

lemma try_body_safety:
  assumes "upload_file sv p = Inr myfile"
    and "generate_content sv (build_prompt myfile nm desc) = Inr r"
    and "response_text r = Some txt"
    and "candidates r = c # cs"
    and "finish_reason c = ''SAFETY''"
  shows "fst (try_body sv p nm desc w) =
     Inr (jsonify
       (if filter (\<lambda>rating. probability rating \<noteq> ''NEGLIGIBLE'') (safety_ratings c) \<noteq> []
        then JObj [(''compliant'', JBool False),
                   (''reason'', JStr (join '', '' (map rating_text
                      (filter (\<lambda>rating. probability rating \<noteq> ''NEGLIGIBLE'') (safety_ratings c)))))]
        else JObj [(''compliant'', JBool True)]))"
  using assms by (simp add: try_body_def Let_def)


lemma build_prompt_name_None:
  "build_prompt myfile None desc = build_prompt myfile (Some ''None'') desc"
  by (simp add: build_prompt_def combined_text_def fstr_def)

lemma try_body_name_None:
  "try_body sv p None desc w = try_body sv p (Some ''None'') desc w"
  unfolding try_body_def build_prompt_name_None by (rule refl)


lemma demo_temp_file:
  "temp_file (demo_services uploaded generated parsed) (listing nm desc) =
     Inr ''/tmp/tmpk3v9x2ab.png''"
  by (simp add: temp_file_def demo_services_def listing_def splitext_ext_def)

section \<open>C1: the denylist short-circuit\<close>

text \<open>
  Claim C1, as the code has it. If the combined text \<open>{name} {description}\<close> contains,
  with case ignored, a denylist entry other than \<open>NSFW\<close>, then the handler answers with
  status 200 and the generic body, whose reason reads
  \<open>Does not comply with our Term of Service\<close>, and it leaves the world as it found it:
  no temporary file, no upload, no call to the model.
\<close>

theorem denylist_hit_short_circuits:
  assumes "entry \<in> set blacklist_words" and "entry \<noteq> ''NSFW''"
    and "contains_ignoring_case entry (combined_text (name rq) (description rq))"
  shows "check_compliance sv rq w =
     (Inr \<lparr>status = 200,
           body = JObj [(''compliant'', JBool False),
                        (''reason'', JStr ''Does not comply with our Term of Service'')]\<rparr>, w)"
proof -
  from assms(1,2) lower_words have "lower entry = entry" by blast
  with assms(3) have "py_in entry (lower (combined_text (name rq) (description rq)))"
    by (simp add: contains_ignoring_case_def)
  with assms(1) have "contains_blacklisted_word (combined_text (name rq) (description rq))"
    unfolding contains_blacklisted_word_def Let_def list_ex_iff by blast
  then show ?thesis
    by (simp add: check_compliance_hit jsonify_def generic_body_def)
qed

text \<open>The theorem at a listing whose description shouts \<open>VODKA\<close>.\<close>

theorem denylist_hit_short_circuits_witness:
  "''vodka'' \<in> set blacklist_words \<and> ''vodka'' \<noteq> ''NSFW'' \<and>
   contains_ignoring_case ''vodka''
     (combined_text (name (listing (Some ''Gift'') (Some ''This is a bottle of VODKA'')))
        (description (listing (Some ''Gift'') (Some ''This is a bottle of VODKA'')))) \<and>
   check_compliance (demo_services (Inr ''files/f1'') (Inr (answered ''{}'')) (Some (JObj [])))
     (listing (Some ''Gift'') (Some ''This is a bottle of VODKA'')) quiet =
     (Inr \<lparr>status = 200,
           body = JObj [(''compliant'', JBool False),
                        (''reason'', JStr ''Does not comply with our Term of Service'')]\<rparr>,
      quiet)"
proof -
  have a: "''vodka'' \<in> set blacklist_words"
    by (simp add: blacklist_words_def)
  have b: "''vodka'' \<noteq> ''NSFW''"
    by simp
  have c: "contains_ignoring_case ''vodka''
     (combined_text (name (listing (Some ''Gift'') (Some ''This is a bottle of VODKA'')))
        (description (listing (Some ''Gift'') (Some ''This is a bottle of VODKA''))))"
    by code_simp
  show ?thesis
    using a b c denylist_hit_short_circuits [OF a b c] by simp
qed

text \<open>
  C1 as the specification words it fails twice. The entry \<open>NSFW\<close> is stored in upper
  case and compared with the lower-cased text, so it never matches: a listing described
  as \<open>NSFW poster\<close> goes on to the classifier. And the reason of a hit is spelled
  \<open>Term of Service\<close>, not \<open>Terms of Service\<close>.
\<close>

theorem denylist_claim_counterexample:
  "has_denylisted_term (combined_text (Some ''Gift'') (Some ''NSFW poster'')) \<and>
   calls (snd (check_compliance
     (demo_services (Inr ''files/f1'') (Inr (answered ''{}'')) (Some (JObj [])))
     (listing (Some ''Gift'') (Some ''NSFW poster'')) quiet)) \<noteq> [] \<and>
   has_denylisted_term (combined_text (Some ''Gift'') (Some ''This is a bottle of vodka'')) \<and>
   fst (check_compliance
     (demo_services (Inr ''files/f1'') (Inr (answered ''{}'')) (Some (JObj [])))
     (listing (Some ''Gift'') (Some ''This is a bottle of vodka'')) quiet) \<noteq>
     Inr \<lparr>status = 200, body = spec_generic_body\<rparr>"
  by code_simp

section \<open>C2: exceptions fail closed\<close>

text \<open>
  Claim C2, as the code has it. Once a request has passed the denylist and the
  validation, any exception raised inside the \<open>try\<close> statement (by the upload, by the
  model call, by reading the answer) is answered with status 200 and the generic body
  \<open>{"compliant": false, "reason": "Does not comply with our Term of Service"}\<close>, and
  that response equals the response to any denylist hit.
\<close>

theorem exception_answers_like_denylist_hit:
  assumes "passes_validation rq"
    and "temp_file sv rq = Inr p"
    and "fst (try_body sv p (name rq) (description rq)
               (w\<lparr>files := insert p (files w)\<rparr>)) = Inl e"
    and "contains_blacklisted_word (combined_text (name rq') (description rq'))"
  shows "fst (check_compliance sv rq w) =
           Inr \<lparr>status = 200,
                body = JObj [(''compliant'', JBool False),
                             (''reason'', JStr ''Does not comply with our Term of Service'')]\<rparr> \<and>
         fst (check_compliance sv rq w) = fst (check_compliance sv' rq' w')"
  using assms
  by (simp add: fst_check_compliance_classify check_compliance_hit jsonify_def generic_body_def)

text \<open>The theorem where the model call raises, against a listing of vodka.\<close>

theorem exception_answers_like_denylist_hit_witness:
  "passes_validation (listing (Some ''Socks'') (Some ''Warm wool socks'')) \<and>
   contains_blacklisted_word
     (combined_text (name (listing (Some ''Gift'') (Some ''This is a bottle of vodka'')))
        (description (listing (Some ''Gift'') (Some ''This is a bottle of vodka'')))) \<and>
   fst (check_compliance
     (demo_services (Inr ''files/f1'') (Inl (ServiceError ''connection reset'')) None)
     (listing (Some ''Socks'') (Some ''Warm wool socks'')) quiet) =
     Inr \<lparr>status = 200,
          body = JObj [(''compliant'', JBool False),
                       (''reason'', JStr ''Does not comply with our Term of Service'')]\<rparr> \<and>
   fst (check_compliance
     (demo_services (Inr ''files/f1'') (Inl (ServiceError ''connection reset'')) None)
     (listing (Some ''Socks'') (Some ''Warm wool socks'')) quiet) =
   fst (check_compliance
     (demo_services (Inr ''files/f1'') (Inr (answered ''{}'')) None)
     (listing (Some ''Gift'') (Some ''This is a bottle of vodka'')) quiet)"
proof -
  let ?sv = "demo_services (Inr ''files/f1'') (Inl (ServiceError ''connection reset'')) None"
  let ?rq = "listing (Some ''Socks'') (Some ''Warm wool socks'')"
  let ?hit = "listing (Some ''Gift'') (Some ''This is a bottle of vodka'')"
  have a: "passes_validation ?rq"
    by code_simp
  have t: "temp_file ?sv ?rq = Inr ''/tmp/tmpk3v9x2ab.png''"
    by (rule demo_temp_file)
  have b: "fst (try_body ?sv ''/tmp/tmpk3v9x2ab.png'' (name ?rq) (description ?rq)
                 (quiet\<lparr>files := insert ''/tmp/tmpk3v9x2ab.png'' (files quiet)\<rparr>)) =
           Inl (ServiceError ''connection reset'')"
    by (simp add: try_body_def demo_services_def Let_def)
  have c: "contains_blacklisted_word (combined_text (name ?hit) (description ?hit))"
    by code_simp
  from a c exception_answers_like_denylist_hit [OF a t b c,
      of "demo_services (Inr ''files/f1'') (Inr (answered ''{}'')) None" quiet]
  show ?thesis
    by blast
qed

text \<open>
  C2 with the reason spelled as in the specification fails: after a failed upload the
  body is not the one with \<open>Terms of Service\<close>.
\<close>

theorem exception_body_counterexample:
  "fst (check_compliance
     (demo_services (Inl (ServiceError ''upload timed out'')) (Inr (answered ''{}'')) None)
     (listing (Some ''Socks'') (Some ''Warm wool socks'')) quiet) \<noteq>
   Inr \<lparr>status = 200, body = spec_generic_body\<rparr>"
  by code_simp

section \<open>C3: the safety-filter outcome\<close>

text \<open>
  Claim C3 says that an answer terminated by the safety filter with the rating
  \<open>HARM_CATEGORY_X\<close> / \<open>HIGH\<close> yields the reason \<open>X (HIGH)\<close>. The branch that
  builds this reason is \<open>try_body_safety\<close> above, but it is entered only after
  \<open>print(response.text)\<close>. A blocked answer carries no text, the accessor raises, and
  the handler answers with the generic body instead.
\<close>

theorem blocked_answer_without_text_is_generic:
  "fst (check_compliance
     (demo_services (Inr ''files/f1'')
        (Inr (blocked None [\<lparr>category = ''HARM_CATEGORY_X'', probability = ''HIGH''\<rparr>])) None)
     (listing (Some ''Poster'') (Some ''Wall poster'')) quiet) =
   Inr \<lparr>status = 200,
        body = JObj [(''compliant'', JBool False),
                     (''reason'', JStr ''Does not comply with our Term of Service'')]\<rparr>"
  by code_simp

section \<open>C4: validation and its order\<close>

text \<open>
  Claim C4, as the code has it. For a request that passes the denylist: if the photo is
  missing or has an empty file name, or the description is missing or empty, the answer
  is status 400 with \<open>Image and description are required\<close>; if photo and description
  are both there and not empty and the declared MIME type is none of the five supported
  ones, the answer is status 400 with \<open>Unsupported image format\<close>. Presence is decided
  first. In both cases the world is left as it was.
\<close>

theorem validation_order:
  assumes "\<not> contains_blacklisted_word (combined_text (name rq) (description rq))"
  shows "(photo rq = None \<or> (\<exists>f. photo rq = Some f \<and> filename f = []) \<or>
          description rq = None \<or> description rq = Some [] \<longrightarrow>
          check_compliance sv rq w =
            (Inr \<lparr>status = 400,
              body = JObj [(''error'', JStr ''Image and description are required'')]\<rparr>, w)) \<and>
         (photo rq = Some img \<and> filename img \<noteq> [] \<and>
          description rq = Some d \<and> d \<noteq> [] \<and>
          mimetype img \<notin> set [''image/png'', ''image/jpeg'', ''image/webp'',
                                ''image/heic'', ''image/heif''] \<longrightarrow>
          check_compliance sv rq w =
            (Inr \<lparr>status = 400, body = JObj [(''error'', JStr ''Unsupported image format'')]\<rparr>, w))"
  using assms
  by (auto simp: check_compliance_def Let_def not_file_def not_str_def jsonify_status_def
        supported_formats_def)

text \<open>The theorem at a request without a photo and at a GIF upload.\<close>

theorem validation_order_witness:
  "\<not> contains_blacklisted_word
      (combined_text (name (no_photo None (Some ''socks''))) (description (no_photo None (Some ''socks'')))) \<and>
   check_compliance (demo_services (Inr ''files/f1'') (Inr (answered ''{}'')) None)
     (no_photo None (Some ''socks'')) quiet =
     (Inr \<lparr>status = 400,
       body = JObj [(''error'', JStr ''Image and description are required'')]\<rparr>, quiet) \<and>
   \<not> contains_blacklisted_word
      (combined_text (name (gif_listing (Some ''Mug'') (Some ''Blue mug'')))
         (description (gif_listing (Some ''Mug'') (Some ''Blue mug'')))) \<and>
   check_compliance (demo_services (Inr ''files/f1'') (Inr (answered ''{}'')) None)
     (gif_listing (Some ''Mug'') (Some ''Blue mug'')) quiet =
     (Inr \<lparr>status = 400, body = JObj [(''error'', JStr ''Unsupported image format'')]\<rparr>, quiet)"
proof -
  let ?sv = "demo_services (Inr ''files/f1'') (Inr (answered ''{}'')) None"
  let ?r1 = "no_photo None (Some ''socks'')"
  let ?r2 = "gif_listing (Some ''Mug'') (Some ''Blue mug'')"
  have a: "\<not> contains_blacklisted_word (combined_text (name ?r1) (description ?r1))"
    by code_simp
  have b: "\<not> contains_blacklisted_word (combined_text (name ?r2) (description ?r2))"
    by code_simp
  have p1: "photo ?r1 = None"
    by (simp add: no_photo_def)
  have p2: "photo ?r2 = Some \<lparr>filename = ''item.gif'', mimetype = ''image/gif''\<rparr> \<and>
            filename \<lparr>filename = ''item.gif'', mimetype = ''image/gif''\<rparr> \<noteq> [] \<and>
            description ?r2 = Some ''Blue mug'' \<and> ''Blue mug'' \<noteq> [] \<and>
            mimetype \<lparr>filename = ''item.gif'', mimetype = ''image/gif''\<rparr> \<notin>
              set [''image/png'', ''image/jpeg'', ''image/webp'', ''image/heic'', ''image/heif'']"
    by (simp add: gif_listing_def)
  from a b p1 p2
    validation_order [OF a, of ?sv quiet]
    validation_order [OF b, of ?sv quiet "\<lparr>filename = ''item.gif'', mimetype = ''image/gif''\<rparr>" "''Blue mug''"]
  show ?thesis
    by blast
qed

text \<open>
  C4 with "missing" read as "not sent" fails: a GIF upload whose description field is
  sent but empty has both fields, yet it is answered with the "required" error, not with
  the format error.
\<close>

theorem empty_description_bad_format_counterexample:
  "\<not> contains_blacklisted_word (combined_text (Some ''Mug'') (Some [])) \<and>
   photo (gif_listing (Some ''Mug'') (Some [])) \<noteq> None \<and>
   description (gif_listing (Some ''Mug'') (Some [])) \<noteq> None \<and>
   ''image/gif'' \<notin> set supported_formats \<and>
   fst (check_compliance (demo_services (Inr ''files/f1'') (Inr (answered ''{}'')) None)
          (gif_listing (Some ''Mug'') (Some [])) quiet) \<noteq>
     Inr \<lparr>status = 400, body = JObj [(''error'', JStr ''Unsupported image format'')]\<rparr>"
  by code_simp

section \<open>C5: the temporary file is removed\<close>

text \<open>
  Claim C5. For every request that passes validation, whatever the upload, the model and
  the parser do: if the temporary file was created, it does not exist when the handler
  has returned, the files that exist are those from before without the temporary one,
  and the upload of that file was attempted; if it could not be created, the request
  never gets to the classifier and the world is as it was, with no file left behind.
\<close>

theorem temp_file_removed:
  assumes "passes_validation rq"
  shows "case temp_file sv rq of
           Inr p \<Rightarrow>
             p \<notin> files (snd (check_compliance sv rq w)) \<and>
             files (snd (check_compliance sv rq w)) = files w - {p} \<and>
             (\<exists>more. calls (snd (check_compliance sv rq w)) = calls w @ UploadFile p # more)
         | Inl e \<Rightarrow> check_compliance sv rq w = (Inl e, w)"
proof (cases "temp_file sv rq")
  case (Inl e)
  with assms show ?thesis
    by (simp add: check_compliance_no_temp_file)
next
  case (Inr p)
  let ?w1 = "w\<lparr>files := insert p (files w)\<rparr>"
  let ?w2 = "snd (try_body sv p (name rq) (description rq) ?w1)"
  have s: "snd (check_compliance sv rq w) = ?w2\<lparr>files := files ?w2 - {p}\<rparr>"
    using assms Inr by (rule snd_check_compliance_classify)
  have f: "files ?w2 = insert p (files w)"
    by (simp add: files_try_body)
  obtain more where c: "calls ?w2 = calls ?w1 @ UploadFile p # more"
    using calls_try_body by blast
  from s f have "files (snd (check_compliance sv rq w)) = files w - {p}"
    by simp
  moreover from s c have "calls (snd (check_compliance sv rq w)) = calls w @ UploadFile p # more"
    by simp
  ultimately show ?thesis
    using Inr by simp
qed

text \<open>The theorem where the model call raises and the path was already taken before.\<close>

theorem temp_file_removed_witness:
  "passes_validation (listing (Some ''Socks'') (Some ''Warm wool socks'')) \<and>
   ''/tmp/tmpk3v9x2ab.png'' \<notin> files (snd (check_compliance
      (demo_services (Inr ''files/f1'') (Inl (ServiceError ''connection reset'')) None)
      (listing (Some ''Socks'') (Some ''Warm wool socks''))
      \<lparr>files = {''/tmp/tmpk3v9x2ab.png'', ''/tmp/other''}, calls = []\<rparr>))"
proof -
  let ?sv = "demo_services (Inr ''files/f1'') (Inl (ServiceError ''connection reset'')) None"
  let ?rq = "listing (Some ''Socks'') (Some ''Warm wool socks'')"
  have a: "passes_validation ?rq"
    by code_simp
  have p: "temp_file ?sv ?rq = Inr ''/tmp/tmpk3v9x2ab.png''"
    by (rule demo_temp_file)
  from a p temp_file_removed [OF a, of ?sv
      "\<lparr>files = {''/tmp/tmpk3v9x2ab.png'', ''/tmp/other''}, calls = []\<rparr>"]
  show ?thesis
    by simp
qed

section \<open>C6 and C9: the model's answer\<close>



text \<open>
  Claim C9. When upload and model call succeed, the answer did not end with the safety
  filter and its stripped text parses as JSON, the parsed value is the body of the
  response, with status 200, whatever its shape.
\<close>

theorem model_json_passed_through:
  assumes "passes_validation rq"
    and "temp_file sv rq = Inr p"
    and "upload_file sv p = Inr myfile"
    and "generate_content sv (build_prompt myfile (name rq) (description rq)) = Inr r"
    and "response_text r = Some txt"
    and "candidates r = c # cs"
    and "finish_reason c \<noteq> ''SAFETY''"
    and "json_loads sv (strip txt) = Some response_data"
  shows "fst (check_compliance sv rq w) = Inr \<lparr>status = 200, body = response_data\<rparr>"
  using assms
  by (simp add: fst_check_compliance_classify try_body_answer jsonify_def)

text \<open>The theorem for an answer that parses to an array.\<close>

theorem model_json_passed_through_witness:
  "passes_validation (listing (Some ''Socks'') (Some ''Warm wool socks'')) \<and>
   finish_reason \<lparr>finish_reason = ''STOP'', safety_ratings = []\<rparr> \<noteq> ''SAFETY'' \<and>
   fst (check_compliance
     (demo_services (Inr ''files/f1'') (Inr (answered ''[1, {}]''))
        (Some (JArr [JNum 1, JObj []])))
     (listing (Some ''Socks'') (Some ''Warm wool socks'')) quiet) =
   Inr \<lparr>status = 200, body = JArr [JNum 1, JObj []]\<rparr>"
proof -
  let ?j = "JArr [JNum 1, JObj []]"
  let ?t = "''[1, {}]''"
  let ?sv = "demo_services (Inr ''files/f1'') (Inr (answered ?t)) (Some ?j)"
  let ?rq = "listing (Some ''Socks'') (Some ''Warm wool socks'')"
  let ?c = "\<lparr>finish_reason = ''STOP'', safety_ratings = []\<rparr>"
  have a: "passes_validation ?rq"
    by code_simp
  have t: "temp_file ?sv ?rq = Inr ''/tmp/tmpk3v9x2ab.png''"
    by (rule demo_temp_file)
  have b: "upload_file ?sv ''/tmp/tmpk3v9x2ab.png'' = Inr ''files/f1''"
    by (simp add: demo_services_def)
  have c: "generate_content ?sv (build_prompt ''files/f1'' (name ?rq) (description ?rq)) =
             Inr (answered ?t)"
    by (simp add: demo_services_def)
  have d: "response_text (answered ?t) = Some ?t"
    by (simp add: answered_def)
  have e: "candidates (answered ?t) = ?c # []"
    by (simp add: answered_def)
  have f: "finish_reason ?c \<noteq> ''SAFETY''"
    by simp
  have g: "json_loads ?sv (strip ?t) = Some ?j"
    by (simp add: demo_services_def)
  from a f model_json_passed_through [OF a t b c d e f g, of quiet] show ?thesis
    by blast
qed

section \<open>C7: an absent name\<close>

text \<open>
  Claim C7, as the code has it. An absent name is formatted as the text \<open>None\<close>: the
  handler treats the request exactly as the same request with the name \<open>None\<close>, so the
  prompt ends in \<open>Description: None {description}\<close>. The verdict of the denylist is
  the one it gives for the empty name.
\<close>

theorem absent_name_reads_None:
  "check_compliance sv (rq\<lparr>name := None\<rparr>) w =
     check_compliance sv (rq\<lparr>name := Some ''None''\<rparr>) w \<and>
   contains_blacklisted_word (combined_text None (description rq)) =
     contains_blacklisted_word (combined_text (Some []) (description rq))"
proof -
  have "combined_text None (description rq) = combined_text (Some ''None'') (description rq)"
    by (simp add: combined_text_def fstr_def)
  then have "check_compliance sv (rq\<lparr>name := None\<rparr>) w =
     check_compliance sv (rq\<lparr>name := Some ''None''\<rparr>) w"
    by (simp add: check_compliance_def Let_def try_body_name_None
          cong: if_cong option.case_cong sum.case_cong)
  moreover have "contains_blacklisted_word (combined_text None (description rq)) =
     contains_blacklisted_word (combined_text (Some []) (description rq))"
    by (simp add: denylist_combined fstr_def denylist_None denylist_Nil)
  ultimately show ?thesis
    by blast
qed

text \<open>
  C7 as the specification words it fails: without a name the prompt differs from the
  prompt for the empty name, and so does the call made to the model.
\<close>

theorem absent_name_counterexample:
  "build_prompt ''files/f1'' None (Some ''Warm wool socks'') \<noteq>
     build_prompt ''files/f1'' (Some []) (Some ''Warm wool socks'') \<and>
   calls (snd (check_compliance (demo_services (Inr ''files/f1'') (Inr (answered ''{}'')) None)
      (listing None (Some ''Warm wool socks'')) quiet)) \<noteq>
   calls (snd (check_compliance (demo_services (Inr ''files/f1'') (Inr (answered ''{}'')) None)
      (listing (Some []) (Some ''Warm wool socks'')) quiet))"
  by code_simp

section \<open>C8: the outcomes of the handler\<close>




section \<open>C10: an empty description\<close>

text \<open>
  Claim C10. A request whose description is sent but empty, and whose combined text has
  no denylist match, is answered with status 400 and
  \<open>Image and description are required\<close>, exactly as the same request without a
  description field.
\<close>

theorem empty_description_rejected:
  assumes "description rq = Some []"
    and "\<not> contains_blacklisted_word (combined_text (name rq) (description rq))"
  shows "check_compliance sv rq w =
           (Inr \<lparr>status = 400,
             body = JObj [(''error'', JStr ''Image and description are required'')]\<rparr>, w) \<and>
         check_compliance sv (rq\<lparr>description := None\<rparr>) w = check_compliance sv rq w"
proof -
  from assms have "\<not> contains_blacklisted_word (fstr (name rq))"
    by (simp add: denylist_combined)
  then have "\<not> contains_blacklisted_word (combined_text (name rq) None)"
    by (simp add: denylist_combined fstr_def denylist_None)
  with assms show ?thesis
    by (simp add: check_compliance_def Let_def not_str_def jsonify_status_def)
qed

text \<open>The theorem at a listing with an empty description.\<close>

theorem empty_description_rejected_witness:
  "description (listing (Some ''Mug'') (Some [])) = Some [] \<and>
   \<not> contains_blacklisted_word
      (combined_text (name (listing (Some ''Mug'') (Some []))) (description (listing (Some ''Mug'') (Some [])))) \<and>
   check_compliance (demo_services (Inr ''files/f1'') (Inr (answered ''{}'')) None)
     (listing (Some ''Mug'') (Some [])) quiet =
     (Inr \<lparr>status = 400,
       body = JObj [(''error'', JStr ''Image and description are required'')]\<rparr>, quiet)"
proof -
  let ?rq = "listing (Some ''Mug'') (Some [])"
  have a: "description ?rq = Some []"
    by (simp add: listing_def)
  have b: "\<not> contains_blacklisted_word (combined_text (name ?rq) (description ?rq))"
    by code_simp
  from a b empty_description_rejected [OF a b, of "demo_services (Inr ''files/f1'') (Inr (answered ''{}'')) None" quiet]
  show ?thesis
    by blast
qed

end
